theory Spec2Isabelle
  imports Complex_Main
begin

section \<open>Errors and wire labels\<close>

text \<open>
  Every exception class that the modelled code raises is a constructor. The cause of a
  chained exception (\<^verbatim>\<open>raise EigvalsUndefinedError from e\<close>) is the argument of
  \<open>EigvalsUndefinedError\<close>; a bare \<^verbatim>\<open>raise EigvalsUndefinedError\<close> has cause \<open>None\<close>.
\<close>

datatype error =
    ValueError string
  | TypeError
  | IndexError
  | WireError
  | NotImplementedError
  | LinAlgError
  | MatrixUndefinedError
  | EigvalsUndefinedError "error option"

datatype label = IntL int | FloatL real | StrL string | NoneL

text \<open>Sequencing of computations that may raise: the first error is the result.\<close>

definition bind_res :: "error + 'a \<Rightarrow> ('a \<Rightarrow> error + 'b) \<Rightarrow> error + 'b" where
  "bind_res r f = (case r of Inl e \<Rightarrow> Inl e | Inr x \<Rightarrow> f x)"

text \<open>Position of the first occurrence of an element (\<open>length xs\<close> when it is absent).\<close>

fun index_of :: "'a list \<Rightarrow> 'a \<Rightarrow> nat" where
  "index_of [] x = 0"
| "index_of (y # ys) x = (if x = y then 0 else Suc (index_of ys x))"

text \<open>
  Modelled from the spec: the wire ordering (\<^verbatim>\<open>pennylane.wires.Wires\<close> is not part of the
  sources at hand): an ordered, deduplicated sequence of hashable labels with index lookup
  and containment check. Constructing one from a sequence with a repeated label fails.
\<close>

definition Wires :: "label list \<Rightarrow> error + label list" where
  "Wires ls = (if distinct ls then Inr ls else Inl WireError)"

definition wires_index :: "label list \<Rightarrow> label \<Rightarrow> error + nat" where
  "wires_index order w = (if w \<in> set order then Inr (index_of order w) else Inl WireError)"

fun wires_indices :: "label list \<Rightarrow> label list \<Rightarrow> error + nat list" where
  "wires_indices order [] = Inr []"
| "wires_indices order (w # ws) =
     bind_res (wires_index order w) (\<lambda>i.
     bind_res (wires_indices order ws) (\<lambda>is. Inr (i # is)))"

definition contains_wires :: "label list \<Rightarrow> label list \<Rightarrow> bool" where
  "contains_wires order ws = list_all (\<lambda>w. w \<in> set order) ws"

section \<open>Arrays of the numeric backend\<close>

text \<open>
  An n-dimensional array is its shape and its entries in row-major order, as numpy stores
  it. The entries are taken in an exact commutative semiring: rounding is not modelled.
\<close>

record 'a ndarray =
  shape :: "nat list"
  dat :: "'a list"

definition ndim :: "'a ndarray \<Rightarrow> nat" where
  "ndim a = length (shape a)"

fun ravel :: "nat list \<Rightarrow> nat list \<Rightarrow> nat" where
  "ravel (s # ss) (i # js) = i * prod_list ss + ravel ss js"
| "ravel ss js = 0"

fun unravel :: "nat list \<Rightarrow> nat \<Rightarrow> nat list" where
  "unravel [] k = []"
| "unravel (s # ss) k = (k div prod_list ss) # unravel ss (k mod prod_list ss)"

definition np_eye :: "nat \<Rightarrow> ('a::comm_semiring_1) ndarray" where
  "np_eye N = \<lparr>shape = [N, N],
              dat = map (\<lambda>k. if k div N = k mod N then 1 else 0) [0..<N * N]\<rparr>"

definition np_reshape :: "'a ndarray \<Rightarrow> nat list \<Rightarrow> error + 'a ndarray" where
  "np_reshape a newshape =
     (if prod_list newshape = length (dat a) then Inr \<lparr>shape = newshape, dat = dat a\<rparr>
      else Inl (ValueError ''cannot reshape array''))"

definition is_axes_perm :: "nat \<Rightarrow> nat list \<Rightarrow> bool" where
  "is_axes_perm nd axes = (length axes = nd \<and> distinct axes \<and> list_all (\<lambda>i. i < nd) axes)"

definition np_transpose :: "'a ndarray \<Rightarrow> nat list \<Rightarrow> error + 'a ndarray" where
  "np_transpose a axes =
     (if is_axes_perm (ndim a) axes then
        (let sh = shape a; nsh = map (\<lambda>i. sh ! i) axes in
         Inr \<lparr>shape = nsh,
              dat = map (\<lambda>k. dat a ! ravel sh (map (\<lambda>i. unravel nsh k ! index_of axes i)
                                                   [0..<length sh]))
                        [0..<prod_list nsh]\<rparr>)
      else Inl (ValueError ''axes don't match array''))"

text \<open>Product of two 2-D arrays; the inner dimensions must agree.\<close>

definition np_dot :: "('a::comm_semiring_1) ndarray \<Rightarrow> 'a ndarray \<Rightarrow> error + 'a ndarray" where
  "np_dot a b =
     (case (shape a, shape b) of
        ([r, m], [m', c]) \<Rightarrow>
          (if m = m' then
             Inr \<lparr>shape = [r, c],
                  dat = map (\<lambda>p. sum_list (map (\<lambda>k. dat a ! ((p div c) * m + k) *
                                                      dat b ! (k * c + p mod c)) [0..<m]))
                            [0..<r * c]\<rparr>
           else Inl (ValueError ''shapes not aligned''))
      | _ \<Rightarrow> Inl (ValueError ''shapes not aligned''))"

text \<open>
  \<^verbatim>\<open>numpy.tensordot(a, b, (axes_a, axes_b))\<close>: the contracted axes of \<open>a\<close> are moved last
  and those of \<open>b\<close> first, both arrays are flattened to matrices and multiplied, and the
  product gets the free axes of \<open>a\<close> followed by the free axes of \<open>b\<close>.
\<close>

definition np_tensordot ::
  "('a::comm_semiring_1) ndarray \<Rightarrow> 'a ndarray \<Rightarrow> nat list \<Rightarrow> nat list \<Rightarrow> error + 'a ndarray" where
  "np_tensordot a b axes_a axes_b =
     (let sa = shape a; sb = shape b in
      if length axes_a \<noteq> length axes_b
         \<or> \<not> list_all (\<lambda>i. i < length sa) axes_a
         \<or> \<not> list_all (\<lambda>i. i < length sb) axes_b
         \<or> map (\<lambda>i. sa ! i) axes_a \<noteq> map (\<lambda>i. sb ! i) axes_b
      then Inl (ValueError ''shape-mismatch for sum'')
      else
        (let notin_a = filter (\<lambda>k. k \<notin> set axes_a) [0..<length sa];
             N2 = prod_list (map (\<lambda>i. sa ! i) axes_a);
             olda = map (\<lambda>i. sa ! i) notin_a;
             notin_b = filter (\<lambda>k. k \<notin> set axes_b) [0..<length sb];
             oldb = map (\<lambda>i. sb ! i) notin_b
         in bind_res (np_transpose a (notin_a @ axes_a)) (\<lambda>ta.
            bind_res (np_reshape ta [prod_list olda, N2]) (\<lambda>a2.
            bind_res (np_transpose b (axes_b @ notin_b)) (\<lambda>tb.
            bind_res (np_reshape tb [N2, prod_list oldb]) (\<lambda>b2.
            bind_res (np_dot a2 b2) (\<lambda>res.
            np_reshape res (olda @ oldb))))))))"

text \<open>Python's \<^verbatim>\<open>list.insert\<close>: an index beyond the end appends.\<close>

definition list_insert :: "'a list \<Rightarrow> nat \<Rightarrow> 'a \<Rightarrow> 'a list" where
  "list_insert xs i x = take i xs @ x # drop i xs"

text \<open>
  \<^verbatim>\<open>numpy.moveaxis(a, source, destination)\<close>: the axes that do not move keep their order,
  and each moved axis is inserted at its destination, smallest destination first.
\<close>

definition np_moveaxis :: "'a ndarray \<Rightarrow> nat list \<Rightarrow> nat list \<Rightarrow> error + 'a ndarray" where
  "np_moveaxis a source destination =
     (if \<not> list_all (\<lambda>i. i < ndim a) source \<or> \<not> list_all (\<lambda>i. i < ndim a) destination
      then Inl (ValueError ''axis out of bounds'')
      else if \<not> distinct source \<or> \<not> distinct destination
      then Inl (ValueError ''repeated axis'')
      else if length source \<noteq> length destination
      then Inl (ValueError ''source and destination must have the same number of elements'')
      else
        np_transpose a
          (foldl (\<lambda>order (dest, src). list_insert order dest src)
                 (filter (\<lambda>n. n \<notin> set source) [0..<ndim a])
                 (sort_key fst (zip destination source))))"

section \<open>Matrix expansion\<close>

text \<open>
  \<^verbatim>\<open>expand_matrix(base_matrix, wires, wire_order)\<close>. The function has no shortcut for
  \<open>wire_order = wires\<close>: it always contracts the reshaped matrix with the reshaped identity
  and moves the axes.
\<close>

definition expand_matrix ::
  "('a::comm_semiring_1) ndarray \<Rightarrow> label list \<Rightarrow> label list \<Rightarrow> error + 'a ndarray" where
  "expand_matrix base_matrix wires wire_order0 =
     bind_res (Wires wire_order0) (\<lambda>wire_order.
     let n = length wires in
     bind_res (wires_indices wire_order wires) (\<lambda>op_wire_pos.
     bind_res (np_reshape (np_eye (2 ^ length wire_order)) (replicate (length wire_order * 2) 2))
       (\<lambda>I.
     bind_res (np_reshape base_matrix (replicate (n * 2) 2)) (\<lambda>mat_op_reshaped.
     bind_res (np_tensordot mat_op_reshaped I [n..<2 * n] op_wire_pos) (\<lambda>mat_tensordot.
     let unused_idxs = filter (\<lambda>idx. idx \<notin> set op_wire_pos) [0..<length wire_order];
         perm = op_wire_pos @ unused_idxs in
     bind_res (wires_indices wire_order wire_order) (\<lambda>src.
     bind_res (np_moveaxis mat_tensordot src perm) (\<lambda>mat.
     np_reshape mat [2 ^ length wire_order, 2 ^ length wire_order])))))))"

section \<open>Operators\<close>

text \<open>
  Python values passed as positional arguments: parameters and, for observables, possibly
  the wires.
\<close>

datatype pyval = PNone | PInt int | PFloat real | PStr string | PSeq "pyval list"

text \<open>
  Modelled from the spec: building a wire ordering from one Python value. A string or a
  number is a single label; a sequence gives one label per element, which must be
  hashable and pairwise different.
\<close>

fun label_of :: "pyval \<Rightarrow> error + label" where
  "label_of PNone = Inr NoneL"
| "label_of (PInt i) = Inr (IntL i)"
| "label_of (PFloat x) = Inr (FloatL x)"
| "label_of (PStr s) = Inr (StrL s)"
| "label_of (PSeq xs) = Inl WireError"

fun sequence_res :: "(error + 'a) list \<Rightarrow> error + 'a list" where
  "sequence_res [] = Inr []"
| "sequence_res (Inl e # rs) = Inl e"
| "sequence_res (Inr x # rs) = bind_res (sequence_res rs) (\<lambda>xs. Inr (x # xs))"

definition Wires_init :: "pyval \<Rightarrow> error + label list" where
  "Wires_init v =
     (case v of
        PSeq xs \<Rightarrow> bind_res (sequence_res (map label_of xs)) Wires
      | _ \<Rightarrow> bind_res (label_of v) (\<lambda>l. Inr [l]))"

text \<open>
  What a class fixes for all its instances. \<open>is_operation\<close> and \<open>is_observable\<close> say
  whether the class inherits from \<^verbatim>\<open>Operation\<close> and from \<^verbatim>\<open>Observable\<close>. \<open>num_wires\<close> is \<open>-1\<close> for \<^verbatim>\<open>AnyWires\<close> and \<open>0\<close>
  for \<^verbatim>\<open>AllWires\<close>. \<open>fixed_num_params\<close> is \<open>Some k\<close> for a subclass that overrides the
  \<^verbatim>\<open>num_params\<close> property with the constant \<open>k\<close>. The static methods \<^verbatim>\<open>compute_matrix\<close> and
  \<^verbatim>\<open>compute_eigvals\<close> are functions of the parameters (the hyperparameters of an instance
  are part of the function); the defaults of the base class raise
  \<open>MatrixUndefinedError\<close> and \<open>EigvalsUndefinedError\<close>.
\<close>

record op_class =
  class_name :: string
  is_operation :: bool
  is_observable :: bool
  num_wires :: int
  fixed_num_params :: "nat option"
  compute_matrix :: "pyval list \<Rightarrow> error + complex ndarray"
  compute_eigvals :: "pyval list \<Rightarrow> error + complex ndarray"

definition AnyWires :: int where "AnyWires = -1"
definition AllWires :: int where "AllWires = 0"

text \<open>
  An instance. \<open>inverse\<close> is the attribute \<^verbatim>\<open>_inverse\<close>, which only instances of
  \<^verbatim>\<open>Operation\<close> have and read.
\<close>

record operator =
  cls :: op_class
  name_attr :: string
  id_attr :: "string option"
  queue_idx :: "nat option"
  num_params_attr :: nat
  wires :: "label list"
  data :: "pyval list"
  inverse :: bool

text \<open>The property \<^verbatim>\<open>name\<close>: \<^verbatim>\<open>Operation\<close> appends a marker when the inverse is set.\<close>

definition name :: "operator \<Rightarrow> string" where
  "name op = (if is_operation (cls op) \<and> inverse op then name_attr op @ ''.inv''
              else name_attr op)"

text \<open>
  \<^verbatim>\<open>Operator.__init__(self, *params, wires=None, do_queue=True, id=None)\<close>, outside a
  recording context, where queuing does nothing. The keyword \<open>wires\<close> is a Python value,
  \<open>PNone\<close> when it is not given.
\<close>

definition Operator_init ::
  "op_class \<Rightarrow> pyval list \<Rightarrow> pyval \<Rightarrow> string option \<Rightarrow> error + operator" where
  "Operator_init c params wires_arg ident =
     (if wires_arg = PNone
      then Inl (ValueError (''Must specify the wires that '' @ class_name c @ '' acts on''))
      else if length params \<noteq> (case fixed_num_params c of None \<Rightarrow> length params | Some k \<Rightarrow> k)
      then Inl (ValueError (class_name c @ '': wrong number of parameters. ''))
      else bind_res (Wires_init wires_arg) (\<lambda>ws.
        if num_wires c \<noteq> AllWires \<and> num_wires c \<noteq> AnyWires \<and> int (length ws) \<noteq> num_wires c
        then Inl (ValueError (class_name c @ '': wrong number of wires. ''))
        else Inr \<lparr>cls = c, name_attr = class_name c, id_attr = ident, queue_idx = None,
                  num_params_attr = length params, wires = ws, data = params,
                  inverse = False\<rparr>))"

text \<open>
  \<^verbatim>\<open>Observable.__init__\<close>: without the keyword \<open>wires\<close> the last positional argument is taken
  as the wires; \<^verbatim>\<open>params[-1]\<close> on an empty tuple raises \<^verbatim>\<open>IndexError\<close>, which is turned into
  a \<^verbatim>\<open>ValueError\<close>.
\<close>

definition Observable_init ::
  "op_class \<Rightarrow> pyval list \<Rightarrow> pyval \<Rightarrow> string option \<Rightarrow> error + operator" where
  "Observable_init c params wires_arg ident =
     (if wires_arg = PNone then
        (case params of
           [] \<Rightarrow> Inl (ValueError (''Must specify the wires that '' @ class_name c @ '' acts on''))
         | _ \<Rightarrow> Operator_init c (butlast params) (last params) ident)
      else Operator_init c params wires_arg ident)"

subsection \<open>Matrix and eigenvalues\<close>

text \<open>\<^verbatim>\<open>qml.math.T\<close> reverses the axes; \<^verbatim>\<open>qml.math.conj\<close> conjugates every entry.\<close>

definition math_T :: "'a ndarray \<Rightarrow> error + 'a ndarray" where
  "math_T a = np_transpose a (rev [0..<ndim a])"

definition math_conj :: "complex ndarray \<Rightarrow> complex ndarray" where
  "math_conj a = \<lparr>shape = shape a, dat = map cnj (dat a)\<rparr>"

text \<open>
  \<^verbatim>\<open>self.wires == Wires(wire_order)\<close> followed by the expansion; shared by the two
  \<^verbatim>\<open>matrix\<close> methods.
\<close>

definition in_wire_order ::
  "operator \<Rightarrow> complex ndarray \<Rightarrow> label list option \<Rightarrow> error + complex ndarray" where
  "in_wire_order op canonical_matrix wire_order =
     (case wire_order of
        None \<Rightarrow> Inr canonical_matrix
      | Some wo \<Rightarrow>
          bind_res (Wires wo) (\<lambda>wo'.
            if wires op = wo' then Inr canonical_matrix
            else expand_matrix canonical_matrix (wires op) wo))"

definition Operator_matrix :: "operator \<Rightarrow> label list option \<Rightarrow> error + complex ndarray" where
  "Operator_matrix op wire_order =
     bind_res (compute_matrix (cls op) (data op)) (\<lambda>canonical_matrix.
     in_wire_order op canonical_matrix wire_order)"

definition Operation_matrix :: "operator \<Rightarrow> label list option \<Rightarrow> error + complex ndarray" where
  "Operation_matrix op wire_order =
     bind_res (compute_matrix (cls op) (data op)) (\<lambda>canonical_matrix.
     if inverse op then
       bind_res (math_T canonical_matrix) (\<lambda>t. in_wire_order op (math_conj t) wire_order)
     else in_wire_order op canonical_matrix wire_order)"

text \<open>The method \<^verbatim>\<open>matrix\<close> that an instance answers to.\<close>

definition matrix :: "operator \<Rightarrow> label list option \<Rightarrow> error + complex ndarray" where
  "matrix op wire_order =
     (if is_operation (cls op) then Operation_matrix op wire_order
      else Operator_matrix op wire_order)"

text \<open>
  \<^verbatim>\<open>Operator.eigvals\<close>. The routine \<^verbatim>\<open>np.linalg.eigvals\<close> of the numeric library is a
  parameter; it either returns the eigenvalues or raises \<^verbatim>\<open>LinAlgError\<close> (\<open>None\<close>).
\<close>

definition Operator_eigvals ::
  "(complex ndarray \<Rightarrow> complex ndarray option) \<Rightarrow> operator \<Rightarrow> error + complex ndarray" where
  "Operator_eigvals linalg_eigvals op =
     (case compute_eigvals (cls op) (data op) of
        Inr v \<Rightarrow> Inr v
      | Inl (EigvalsUndefinedError c) \<Rightarrow>
          (case matrix op None of
             Inl MatrixUndefinedError \<Rightarrow> Inl (EigvalsUndefinedError (Some MatrixUndefinedError))
           | Inl e \<Rightarrow> Inl e
           | Inr m \<Rightarrow> (case linalg_eigvals m of None \<Rightarrow> Inl LinAlgError | Some v \<Rightarrow> Inr v))
      | Inl e \<Rightarrow> Inl e)"

definition Operation_eigvals ::
  "(complex ndarray \<Rightarrow> complex ndarray option) \<Rightarrow> operator \<Rightarrow> error + complex ndarray" where
  "Operation_eigvals linalg_eigvals op =
     bind_res (Operator_eigvals linalg_eigvals op) (\<lambda>op_eigvals.
     if inverse op then Inr (math_conj op_eigvals) else Inr op_eigvals)"

text \<open>
  \<^verbatim>\<open>Operation.inv\<close> outside a recording context: the flag is flipped in place and the
  operation itself is returned.
\<close>

definition inv :: "operator \<Rightarrow> operator" where
  "inv op = op\<lparr>inverse := \<not> inverse op\<rparr>"

subsection \<open>The hash property\<close>

text \<open>
  The class body of \<^verbatim>\<open>Operator\<close> binds the property \<^verbatim>\<open>hash\<close> twice. The later binding is the
  one every instance has: it builds the canonical parameter string and ends without a
  \<^verbatim>\<open>return\<close>, so its value is \<^verbatim>\<open>None\<close>. Angles are idealised as reals:
  \<^verbatim>\<open>qml.math.round(qml.math.real(d) % period, 10)\<close> is \<open>canon_angle period d\<close>.
\<close>

definition py_mod :: "real \<Rightarrow> real \<Rightarrow> real" where
  "py_mod x y = x - y * of_int \<lfloor>x / y\<rfloor>"

definition round10 :: "real \<Rightarrow> real" where
  "round10 x = of_int (round (x * 10 ^ 10)) / 10 ^ 10"

fun canon_angle :: "real \<Rightarrow> pyval \<Rightarrow> error + pyval" where
  "canon_angle period (PFloat x) = Inr (PFloat (round10 (py_mod x period)))"
| "canon_angle period (PInt i) = Inr (PFloat (round10 (py_mod (of_int i) period)))"
| "canon_angle period (PSeq xs) =
     bind_res (sequence_res (map (canon_angle period) xs)) (\<lambda>ys. Inr (PSeq ys))"
| "canon_angle period PNone = Inl TypeError"
| "canon_angle period (PStr s) = Inl TypeError"

definition hash :: "operator \<Rightarrow> error + int option" where
  "hash op =
     bind_res
       (if name op \<in> set [''RX'', ''RY'', ''RZ'', ''PhaseShift'', ''Rot'']
        then sequence_res (map (canon_angle (2 * pi)) (data op))
        else if name op \<in> set [''CRX'', ''CRY'', ''CRZ'', ''CRot'']
        then sequence_res (map (canon_angle (4 * pi)) (data op))
        else Inr (data op))
       (\<lambda>data_string. Inr None)"

section \<open>Tensor products of observables\<close>

text \<open>
  A \<^verbatim>\<open>Tensor\<close> is an \<^verbatim>\<open>Observable\<close>, so the elements of \<^verbatim>\<open>obs\<close> are plain observables or, as
  far as the types go, tensors. The attribute \<^verbatim>\<open>_args\<close> is only read by the constructor
  and is not kept.
\<close>

datatype return_type = Sample | Variance | Expectation | Probability | State

datatype tensor =
  Tensor (obs: "observable list") (eigvals_cache: "complex ndarray option")
         (return_type: "return_type option")
and observable = PlainObs operator | TensorObs tensor

fun is_Tensor :: "observable \<Rightarrow> bool" where
  "is_Tensor (TensorObs t) = True"
| "is_Tensor (PlainObs op) = False"

text \<open>
  Tensors are mutable objects: the store maps references to their current state. An
  operand of a constructor call or of \<^verbatim>\<open>@\<close> is a reference to a tensor, a plain observable,
  or a Python value that is no observable.
\<close>

record pystate =
  tensors :: "nat \<Rightarrow> tensor"
  next_ref :: nat

datatype operand = TensorRef nat | ObservableVal operator | OtherVal

definition set_obs :: "tensor \<Rightarrow> observable list \<Rightarrow> tensor" where
  "set_obs t os = Tensor os (eigvals_cache t) (return_type t)"

text \<open>
  \<^verbatim>\<open>Tensor.__init__(*args)\<close> with the loop of \<^verbatim>\<open>queue(init=True)\<close>, outside a recording
  context (the calls into the context do nothing there).
\<close>

fun queue_init :: "(nat \<Rightarrow> tensor) \<Rightarrow> observable list \<Rightarrow> operand list \<Rightarrow> error + observable list" where
  "queue_init h acc [] = Inr acc"
| "queue_init h acc (TensorRef r # rest) = queue_init h (acc @ obs (h r)) rest"
| "queue_init h acc (ObservableVal o1 # rest) = queue_init h (acc @ [PlainObs o1]) rest"
| "queue_init h acc (OtherVal # rest) =
     Inl (ValueError ''Can only perform tensor products between observables.'')"

definition Tensor_init :: "pystate \<Rightarrow> operand list \<Rightarrow> error + pystate \<times> nat" where
  "Tensor_init st args =
     bind_res (queue_init (tensors st) [] args) (\<lambda>os.
     Inr (st\<lparr>tensors := (tensors st)(next_ref st := Tensor os None None),
             next_ref := Suc (next_ref st)\<rparr>, next_ref st))"

text \<open>
  \<^verbatim>\<open>Tensor.__matmul__\<close> and \<^verbatim>\<open>Tensor.__rmatmul__\<close> outside a recording context. Both change the
  list \<^verbatim>\<open>self.obs\<close> in place and return \<^verbatim>\<open>self\<close>.
\<close>

definition Tensor_matmul :: "pystate \<Rightarrow> nat \<Rightarrow> operand \<Rightarrow> error + pystate \<times> nat" where
  "Tensor_matmul st self other =
     (case other of
        TensorRef r \<Rightarrow>
          Inr (st\<lparr>tensors := (tensors st)
                    (self := set_obs (tensors st self) (obs (tensors st self) @ obs (tensors st r)))\<rparr>,
               self)
      | ObservableVal o1 \<Rightarrow>
          Inr (st\<lparr>tensors := (tensors st)
                    (self := set_obs (tensors st self) (obs (tensors st self) @ [PlainObs o1]))\<rparr>,
               self)
      | OtherVal \<Rightarrow> Inl (ValueError ''Can only perform tensor products between observables.''))"

definition Tensor_rmatmul :: "pystate \<Rightarrow> nat \<Rightarrow> operand \<Rightarrow> error + pystate \<times> nat" where
  "Tensor_rmatmul st self other =
     (case other of
        TensorRef r \<Rightarrow>
          Inr (st\<lparr>tensors := (tensors st)
                    (self := set_obs (tensors st self) (TensorObs (tensors st r) # obs (tensors st self)))\<rparr>,
               self)
      | ObservableVal o1 \<Rightarrow>
          Inr (st\<lparr>tensors := (tensors st)
                    (self := set_obs (tensors st self) (PlainObs o1 # obs (tensors st self)))\<rparr>,
               self)
      | OtherVal \<Rightarrow> Inl (ValueError ''Can only perform tensor products between observables.''))"

text \<open>
  \<^verbatim>\<open>Observable.__matmul__\<close>, the method of a left operand that is no tensor (\<^verbatim>\<open>Tensor\<close>
  overrides it).
\<close>

definition Observable_matmul :: "pystate \<Rightarrow> operator \<Rightarrow> operand \<Rightarrow> error + pystate \<times> nat" where
  "Observable_matmul st self other =
     (case other of
        TensorRef r \<Rightarrow> Tensor_rmatmul st r (ObservableVal self)
      | ObservableVal o1 \<Rightarrow> Tensor_init st [ObservableVal self, ObservableVal o1]
      | OtherVal \<Rightarrow> Inl (ValueError ''Can only perform tensor products between observables.''))"

text \<open>The invariant of the class: no element of \<^verbatim>\<open>obs\<close> is a tensor.\<close>

definition flat :: "tensor \<Rightarrow> bool" where
  "flat t = list_all (\<lambda>o1. \<not> is_Tensor o1) (obs t)"

text \<open>An operand that is a tensor refers to a flat one.\<close>

fun flat_operand :: "(nat \<Rightarrow> tensor) \<Rightarrow> operand \<Rightarrow> bool" where
  "flat_operand h (TensorRef r) = flat (h r)"
| "flat_operand h (ObservableVal o1) = True"
| "flat_operand h OtherVal = True"

subsection \<open>Wires and matrix of a tensor\<close>

text \<open>
  Modelled from the spec: \<^verbatim>\<open>Wires.all_wires\<close> is the union in first-seen order and
  \<^verbatim>\<open>Wires.shared_wires\<close> the labels of the first ordering that the second has too;
  \<^verbatim>\<open>wires.index\<close> of a wire ordering needs an ordering of exactly one label.
\<close>

definition all_wires :: "label list list \<Rightarrow> label list" where
  "all_wires wss = foldl (\<lambda>combined ws. combined @ filter (\<lambda>l. l \<notin> set combined) ws) [] wss"

definition shared_wires :: "label list \<Rightarrow> label list \<Rightarrow> label list" where
  "shared_wires w1 w2 = filter (\<lambda>w. w \<in> set w2) w1"

definition wires_index_obj :: "label list \<Rightarrow> label list \<Rightarrow> error + nat" where
  "wires_index_obj order ws = (case ws of [w] \<Rightarrow> wires_index order w | _ \<Rightarrow> Inl WireError)"

fun obs_wires :: "observable \<Rightarrow> label list" and tensor_wires :: "tensor \<Rightarrow> label list" where
  "obs_wires (PlainObs op) = wires op"
| "obs_wires (TensorObs t) = tensor_wires t"
| "tensor_wires (Tensor os c r) = all_wires (map obs_wires os)"

text \<open>\<^verbatim>\<open>itertools.combinations(xs, 2)\<close> and \<^verbatim>\<open>itertools.groupby(xs, key)\<close>.\<close>

fun combinations2 :: "'a list \<Rightarrow> ('a \<times> 'a) list" where
  "combinations2 [] = []"
| "combinations2 (x # xs) = map (Pair x) xs @ combinations2 xs"

fun groupby :: "('a \<Rightarrow> 'k) \<Rightarrow> 'a list \<Rightarrow> 'a list list" where
  "groupby key [] = []"
| "groupby key (x # xs) =
     (case groupby key xs of
        [] \<Rightarrow> [[x]]
      | g # gs \<Rightarrow> (case g of
                     [] \<Rightarrow> [x] # gs
                   | y # ys \<Rightarrow> if key x = key y then (x # g) # gs else [x] # g # gs))"

definition check_wires_partial_overlap :: "tensor \<Rightarrow> bool" where
  "check_wires_partial_overlap t =
     list_ex (\<lambda>(o1, o2). let shared = shared_wires (obs_wires o1) (obs_wires o2) in
                shared \<noteq> [] \<and> \<not> (shared = obs_wires o1 \<and> shared = obs_wires o2))
             (combinations2 (obs t))"

text \<open>
  \<^verbatim>\<open>numpy.kron\<close>: the shorter shape is padded with ones in front, the shapes are multiplied
  entry by entry, and the entry at index \<open>i\<close> is the product of the entries of \<open>a\<close> at
  \<open>i div shape b\<close> and of \<open>b\<close> at \<open>i mod shape b\<close>. \<^verbatim>\<open>scipy.sparse.kron\<close> is the same on
  matrices.
\<close>

definition np_kron :: "('a::comm_semiring_1) ndarray \<Rightarrow> 'a ndarray \<Rightarrow> 'a ndarray" where
  "np_kron a b =
     (let nd = max (ndim a) (ndim b);
          sa = replicate (nd - ndim a) 1 @ shape a;
          sb = replicate (nd - ndim b) 1 @ shape b;
          rs = map2 (*) sa sb
      in \<lparr>shape = rs,
          dat = map (\<lambda>k. dat a ! ravel sa (map2 (\<lambda>i s. i div s) (unravel rs k) sb) *
                         dat b ! ravel sb (map2 (\<lambda>i s. i mod s) (unravel rs k) sb))
                    [0..<prod_list rs]\<rparr>)"

text \<open>\<^verbatim>\<open>functools.reduce(f, xs)\<close> without initial value raises on an empty list.\<close>

definition reduce :: "('a \<Rightarrow> 'a \<Rightarrow> 'a) \<Rightarrow> 'a list \<Rightarrow> error + 'a" where
  "reduce f xs = (case xs of [] \<Rightarrow> Inl TypeError | u # us \<Rightarrow> Inr (foldl f u us))"

text \<open>\<^verbatim>\<open>numpy.linalg.multi_dot\<close> on two or more matrices, multiplied from the left.\<close>

fun dot_chain :: "('a::comm_semiring_1) ndarray \<Rightarrow> 'a ndarray list \<Rightarrow> error + 'a ndarray" where
  "dot_chain a [] = Inr a"
| "dot_chain a (b # bs) = bind_res (np_dot a b) (\<lambda>ab. dot_chain ab bs)"

definition multi_dot :: "('a::comm_semiring_1) ndarray list \<Rightarrow> error + 'a ndarray" where
  "multi_dot mats =
     (case mats of
        a # b # rest \<Rightarrow> dot_chain a (b # rest)
      | _ \<Rightarrow> Inl (ValueError ''Expecting at least two arrays.''))"

text \<open>\<^verbatim>\<open>np.shape(mat)[0]\<close>.\<close>

definition shape0 :: "'a ndarray \<Rightarrow> error + nat" where
  "shape0 m = (case shape m of [] \<Rightarrow> Inl IndexError | n # ns \<Rightarrow> Inr n)"

text \<open>
  \<^verbatim>\<open>scipy.sparse.coo_matrix\<close> of a dense array: a matrix stays as it is, a vector becomes
  one row.
\<close>

definition coo_matrix :: "'a ndarray \<Rightarrow> error + 'a ndarray" where
  "coo_matrix a =
     (case shape a of
        [r, c] \<Rightarrow> Inr a
      | [n] \<Rightarrow> Inr \<lparr>shape = [1, n], dat = dat a\<rparr>
      | _ \<Rightarrow> Inl TypeError)"

text \<open>
  Warnings are returned next to the result. The body of the loop of \<^verbatim>\<open>Tensor.matrix\<close> for
  one group \<open>g\<close>: the matrices of the group in order, multiplied when there are several.
\<close>

datatype warning = PartialOverlapWarning | SizeMismatchWarning nat nat

definition group_block ::
  "(error + complex ndarray \<times> warning list) list \<Rightarrow> error + complex ndarray \<times> warning list" where
  "group_block g =
     bind_res (sequence_res g) (\<lambda>mws.
       case map fst mws of
         [] \<Rightarrow> Inl IndexError
       | [m] \<Rightarrow> Inr (m, concat (map snd mws))
       | mats \<Rightarrow> bind_res (multi_dot mats) (\<lambda>m. Inr (m, concat (map snd mws))))"

text \<open>
  The part of \<^verbatim>\<open>Tensor.matrix\<close> after the loop: the size check with its two warnings and
  the Kronecker product of the blocks.
\<close>

definition matrix_of_blocks ::
  "bool \<Rightarrow> nat \<Rightarrow> (complex ndarray \<times> warning list) list \<Rightarrow> error + complex ndarray \<times> warning list" where
  "matrix_of_blocks partial_overlap n_wires blocks =
     bind_res (sequence_res (map (\<lambda>b. shape0 (fst b)) blocks)) (\<lambda>sizes.
       let mat_size = prod_list sizes;
           wire_size = 2 ^ n_wires;
           warned = (if mat_size = wire_size then []
                     else if partial_overlap then [PartialOverlapWarning]
                     else [SizeMismatchWarning mat_size wire_size])
       in bind_res (reduce np_kron (map fst blocks)) (\<lambda>m.
          Inr (m, concat (map snd blocks) @ warned)))"

text \<open>
  \<^verbatim>\<open>o.matrix()\<close> of a constituent, the list \<^verbatim>\<open>U_list\<close> that the loop of \<^verbatim>\<open>Tensor.matrix\<close>
  builds, and \<^verbatim>\<open>Tensor.matrix()\<close> without wire order.
\<close>

fun obs_matrix :: "observable \<Rightarrow> error + complex ndarray \<times> warning list"
and U_list :: "tensor \<Rightarrow> error + (complex ndarray \<times> warning list) list"
and tensor_matrix :: "tensor \<Rightarrow> error + complex ndarray \<times> warning list" where
  "obs_matrix (PlainObs op) = bind_res (matrix op None) (\<lambda>m. Inr (m, []))"
| "obs_matrix (TensorObs t) = tensor_matrix t"
| "U_list (Tensor os c r) =
     sequence_res (map (\<lambda>g. group_block (map snd g))
                       (groupby fst (map (\<lambda>o1. (obs_wires o1, obs_matrix o1)) os)))"
| "tensor_matrix (Tensor os c r) =
     bind_res (sequence_res (map (\<lambda>g. group_block (map snd g))
                       (groupby fst (map (\<lambda>o1. (obs_wires o1, obs_matrix o1)) os))))
       (matrix_of_blocks (check_wires_partial_overlap (Tensor os c r))
                         (length (tensor_wires (Tensor os c r))))"

definition Tensor_matrix ::
  "tensor \<Rightarrow> label list option \<Rightarrow> error + complex ndarray \<times> warning list" where
  "Tensor_matrix t wire_order =
     (case wire_order of
        Some wo \<Rightarrow> Inl NotImplementedError
      | None \<Rightarrow> tensor_matrix t)"

subsection \<open>Sparse matrix of a tensor\<close>

text \<open>The loop of \<^verbatim>\<open>Tensor.sparse_matrix\<close> over \<^verbatim>\<open>self.obs\<close>.\<close>

fun sparse_loop ::
  "label list \<Rightarrow> complex ndarray list \<Rightarrow> observable list
   \<Rightarrow> error + complex ndarray list \<times> warning list" where
  "sparse_loop ws list_of_sparse_ops [] = Inr (list_of_sparse_ops, [])"
| "sparse_loop ws list_of_sparse_ops (o1 # rest) =
     (if length (obs_wires o1) > 1
      then Inl (ValueError ''Can only compute sparse representation for tensors whose operations act on consecutive wires'')
      else bind_res (wires_index_obj ws (obs_wires o1)) (\<lambda>idx.
           bind_res (obs_matrix o1) (\<lambda>mw.
           bind_res (coo_matrix (fst mw)) (\<lambda>sm.
           bind_res (sparse_loop ws (list_of_sparse_ops[idx := sm]) rest) (\<lambda>res.
           Inr (fst res, snd mw @ snd res))))))"

definition target_wires :: "tensor \<Rightarrow> label list option \<Rightarrow> error + label list" where
  "target_wires t wires_arg =
     (case wires_arg of None \<Rightarrow> Inr (tensor_wires t) | Some ws \<Rightarrow> Wires ws)"

definition Tensor_sparse_matrix ::
  "tensor \<Rightarrow> label list option \<Rightarrow> error + complex ndarray \<times> warning list" where
  "Tensor_sparse_matrix t wires_arg =
     bind_res (target_wires t wires_arg) (\<lambda>ws.
     bind_res (sparse_loop ws (replicate (length ws) (np_eye 2)) (obs t)) (\<lambda>res.
     bind_res (reduce np_kron (fst res)) (\<lambda>m. Inr (m, snd res))))"

text \<open>
  The wording of the specification, for comparison: a constituent acts on a contiguous
  block when its wires sit at consecutive positions of the target ordering.
\<close>

definition contiguous_block :: "label list \<Rightarrow> label list \<Rightarrow> bool" where
  "contiguous_block order ws =
     (ws \<noteq> [] \<and> list_all (\<lambda>w. w \<in> set order) ws
      \<and> map (index_of order) ws = [index_of order (hd ws)..<index_of order (hd ws) + length ws])"

text \<open>
  What a constituent contributes when the loop accepts it: the position of its single
  wire in the target ordering and its matrix in sparse form.
\<close>

definition factor_of :: "label list \<Rightarrow> observable \<Rightarrow> (nat \<times> complex ndarray) option" where
  "factor_of ws o1 =
     (case obs_wires o1 of
        [w] \<Rightarrow> (if w \<in> set ws then
                  (case obs_matrix o1 of
                     Inr mw \<Rightarrow> (case coo_matrix (fst mw) of Inr sm \<Rightarrow> Some (index_of ws w, sm)
                                 | Inl e \<Rightarrow> None)
                   | Inl e \<Rightarrow> None)
                else None)
      | _ \<Rightarrow> None)"

definition place :: "label list \<Rightarrow> complex ndarray list \<Rightarrow> observable \<Rightarrow> complex ndarray list" where
  "place ws acc o1 = (case factor_of ws o1 of Some p \<Rightarrow> acc[fst p := snd p] | None \<Rightarrow> acc)"

section \<open>Continuous-variable operators\<close>












section \<open>Concrete operators\<close>

text \<open>
  The rotation gate \<^verbatim>\<open>RX(phi, wires=w)\<close>, a one-parameter operation on one wire, the
  parameter-free observable \<^verbatim>\<open>PauliZ\<close> with its eigenvalues, a phase gate without stored
  eigenvalues, and an operator that overrides none of the static methods.
\<close>

definition RX_class :: op_class where
  "RX_class = \<lparr>class_name = ''RX'', is_operation = True, is_observable = False, num_wires = 1,
      fixed_num_params = Some 1,
      compute_matrix = (\<lambda>p. case p of
          [PFloat x] \<Rightarrow> Inr \<lparr>shape = [2, 2],
                             dat = [complex_of_real (cos (x / 2)), - \<i> * complex_of_real (sin (x / 2)),
                                    - \<i> * complex_of_real (sin (x / 2)), complex_of_real (cos (x / 2))]\<rparr>
        | _ \<Rightarrow> Inl TypeError),
      compute_eigvals = (\<lambda>p. Inl (EigvalsUndefinedError None))\<rparr>"

definition RX :: "real \<Rightarrow> label \<Rightarrow> operator" where
  "RX phi w = \<lparr>cls = RX_class, name_attr = ''RX'', id_attr = None, queue_idx = None,
               num_params_attr = 1, wires = [w], data = [PFloat phi], inverse = False\<rparr>"

definition PauliZ_class :: op_class where
  "PauliZ_class = \<lparr>class_name = ''PauliZ'', is_operation = True, is_observable = True, num_wires = 1,
      fixed_num_params = Some 0,
      compute_matrix = (\<lambda>p. Inr \<lparr>shape = [2, 2], dat = [1, 0, 0, -1]\<rparr>),
      compute_eigvals = (\<lambda>p. Inr \<lparr>shape = [2], dat = [1, -1]\<rparr>)\<rparr>"

definition PauliZ :: "label \<Rightarrow> operator" where
  "PauliZ w = \<lparr>cls = PauliZ_class, name_attr = ''PauliZ'', id_attr = None, queue_idx = None,
               num_params_attr = 0, wires = [w], data = [], inverse = False\<rparr>"

definition S_class :: op_class where
  "S_class = \<lparr>class_name = ''S'', is_operation = True, is_observable = False, num_wires = 1,
      fixed_num_params = Some 0,
      compute_matrix = (\<lambda>p. Inr \<lparr>shape = [2, 2], dat = [1, 0, 0, \<i>]\<rparr>),
      compute_eigvals = (\<lambda>p. Inl (EigvalsUndefinedError None))\<rparr>"

definition S :: "label \<Rightarrow> operator" where
  "S w = \<lparr>cls = S_class, name_attr = ''S'', id_attr = None, queue_idx = None,
          num_params_attr = 0, wires = [w], data = [], inverse = False\<rparr>"

definition Bare_class :: op_class where
  "Bare_class = \<lparr>class_name = ''Bare'', is_operation = False, is_observable = True, num_wires = AnyWires,
      fixed_num_params = None,
      compute_matrix = (\<lambda>p. Inl MatrixUndefinedError),
      compute_eigvals = (\<lambda>p. Inl (EigvalsUndefinedError None))\<rparr>"

definition Bare :: "pyval list \<Rightarrow> label list \<Rightarrow> operator" where
  "Bare ps ws = \<lparr>cls = Bare_class, name_attr = ''Bare'', id_attr = None, queue_idx = None,
                 num_params_attr = length ps, wires = ws, data = ps, inverse = False\<rparr>"


text \<open>A store with one tensor, \<^verbatim>\<open>PauliZ(0) @ PauliZ(1)\<close>, at reference 0.\<close>

definition ZZ_store :: pystate where
  "ZZ_store = \<lparr>tensors = (\<lambda>r. if r = 0
                              then Tensor [PlainObs (PauliZ (IntL 0)), PlainObs (PauliZ (IntL 1))]
                                          None None
                              else Tensor [] None None),
               next_ref = 1\<rparr>"

text \<open>
  Tensors: \<^verbatim>\<open>PauliZ(0) @ PauliZ(1) @ PauliZ(0)\<close>, whose wire 0 comes back after wire 1; a
  Hermitian observable on two wires (its matrix parameter, the 4 by 4 identity, is part of
  \<open>compute_matrix\<close>) alone and after a \<^verbatim>\<open>PauliZ\<close>; and \<^verbatim>\<open>PauliZ(0)\<close> alone.
\<close>

definition ZZZ :: tensor where
  "ZZZ = Tensor [PlainObs (PauliZ (IntL 0)), PlainObs (PauliZ (IntL 1)),
                 PlainObs (PauliZ (IntL 0))] None None"

definition Hermitian_class :: op_class where
  "Hermitian_class = \<lparr>class_name = ''Hermitian'', is_operation = False, is_observable = True,
      num_wires = AnyWires, fixed_num_params = Some 1,
      compute_matrix = (\<lambda>p. Inr \<lparr>shape = [4, 4],
                                   dat = [1, 0, 0, 0, 0, 1, 0, 0, 0, 0, 1, 0, 0, 0, 0, 1]\<rparr>),
      compute_eigvals = (\<lambda>p. Inl (EigvalsUndefinedError None))\<rparr>"

definition Hermitian :: "label list \<Rightarrow> operator" where
  "Hermitian ws = \<lparr>cls = Hermitian_class, name_attr = ''Hermitian'', id_attr = None,
                   queue_idx = None, num_params_attr = 1, wires = ws, data = [PNone],
                   inverse = False\<rparr>"

definition H01 :: tensor where
  "H01 = Tensor [PlainObs (Hermitian [IntL 0, IntL 1])] None None"

definition Z_H12 :: tensor where
  "Z_H12 = Tensor [PlainObs (PauliZ (IntL 0)), PlainObs (Hermitian [IntL 1, IntL 2])] None None"

definition Z0 :: tensor where
  "Z0 = Tensor [PlainObs (PauliZ (IntL 0))] None None"



definition Rotation_class :: op_class where
  "Rotation_class = \<lparr>class_name = ''Rotation'', is_operation = True, is_observable = False,
      num_wires = 1, fixed_num_params = Some 1,
      compute_matrix = (\<lambda>p. Inl MatrixUndefinedError),
      compute_eigvals = (\<lambda>p. Inl (EigvalsUndefinedError None))\<rparr>"

definition Rotation :: "real \<Rightarrow> label \<Rightarrow> operator" where
  "Rotation phi w = \<lparr>cls = Rotation_class, name_attr = ''Rotation'', id_attr = None,
                     queue_idx = None, num_params_attr = 1, wires = [w], data = [PFloat phi],
                     inverse = False\<rparr>"

section \<open>Properties of operators\<close>

lemma math_T_2d:
  "shape m = [r, c] \<Longrightarrow>
   math_T m = Inr \<lparr>shape = [c, r], dat = map (\<lambda>k. dat m ! ((k mod r) * c + k div r)) [0..<c * r]\<rparr>"
  by (simp add: math_T_def np_transpose_def is_axes_perm_def ndim_def Let_def upt_rec numeral_2_eq_2)

text \<open>
  C1 (the code departs from it). The claim: \<^verbatim>\<open>hash\<close> is an integer derived from name, wires and
  canonical parameter string; two \<^verbatim>\<open>RX\<close> on the same wire hash alike when the angles differ
  by 2 pi and differently when they differ by pi. The property that instances have returns
  \<^verbatim>\<open>None\<close> for every \<^verbatim>\<open>RX\<close>: the angles 0 and pi get the same value, and it is no integer.
\<close>

theorem hash_RX_is_None:
  "hash (RX 0 w) = Inr None \<and> hash (RX pi w) = Inr None \<and> hash (RX phi w) \<noteq> Inr (Some h)"
  by (simp add: hash_def RX_def RX_class_def name_def bind_res_def)

lemma hash_never_integer: "hash op \<noteq> Inr (Some h)"
  by (auto simp: hash_def bind_res_def split: sum.splits)

text \<open>
  C6. Outside a recording context, one call of \<^verbatim>\<open>inv\<close> on an operation that is not inverted
  makes \<^verbatim>\<open>matrix()\<close> the conjugate transpose of the canonical matrix (entry \<open>(j, i)\<close> of the
  result is the conjugate of entry \<open>(i, j)\<close>); two calls restore the flag and the matrix.
\<close>

theorem inv_toggles_matrix:
  "(is_operation (cls op) \<and> \<not> inverse op \<and> compute_matrix (cls op) (data op) = Inr m
      \<and> shape m = [r, c]
    \<longrightarrow> matrix (inv op) None =
          Inr \<lparr>shape = [c, r],
               dat = map (\<lambda>k. cnj (dat m ! ((k mod r) * c + k div r))) [0..<c * r]\<rparr>)
   \<and> inverse (inv (inv op)) = inverse op
   \<and> matrix (inv (inv op)) wire_order = matrix op wire_order"
  by (simp add: matrix_def inv_def Operation_matrix_def bind_res_def in_wire_order_def
        math_T_2d math_conj_def o_def)

theorem inv_toggles_matrix_witness:
  "is_operation (cls (S (IntL 0))) \<and> \<not> inverse (S (IntL 0))
   \<and> compute_matrix (cls (S (IntL 0))) (data (S (IntL 0))) = Inr \<lparr>shape = [2, 2], dat = [1, 0, 0, \<i>]\<rparr>
   \<and> matrix (inv (S (IntL 0))) None = Inr \<lparr>shape = [2, 2], dat = [1, 0, 0, - \<i>]\<rparr>
   \<and> inverse (inv (inv (S (IntL 0)))) = False
   \<and> matrix (inv (inv (S (IntL 0)))) None = Inr \<lparr>shape = [2, 2], dat = [1, 0, 0, \<i>]\<rparr>"
  using inv_toggles_matrix [of "S (IntL 0)" "\<lparr>shape = [2, 2], dat = [1, 0, 0, \<i>]\<rparr>" 2 2 None]
  by (simp add: S_def S_class_def matrix_def Operation_matrix_def bind_res_def
        in_wire_order_def upt_rec)



text \<open>
  C10. Without the keyword \<open>wires\<close>, \<^verbatim>\<open>Observable.__init__\<close> takes the last positional argument
  as the wires and the others as the parameters; with no positional argument either it
  raises the must-specify-wires \<^verbatim>\<open>ValueError\<close> and there is no object.
\<close>

theorem Observable_init_last_positional:
  "(params \<noteq> [] \<longrightarrow>
      Observable_init c params PNone i = Operator_init c (butlast params) (last params) i)
   \<and> (Observable_init c params PNone i = Inr op \<longrightarrow>
        params \<noteq> [] \<and> Wires_init (last params) = Inr (wires op) \<and> data op = butlast params)
   \<and> Observable_init c [] PNone i
       = Inl (ValueError (''Must specify the wires that '' @ class_name c @ '' acts on''))"
proof -
  have last_is_wires: "Observable_init c ps PNone i = Operator_init c (butlast ps) (last ps) i"
    if "ps \<noteq> []" for ps
    using that by (cases ps) (simp_all add: Observable_init_def)
  have no_args: "Observable_init c [] PNone i
       = Inl (ValueError (''Must specify the wires that '' @ class_name c @ '' acts on''))"
    by (simp add: Observable_init_def)
  have stored: "Wires_init w = Inr (wires op) \<and> data op = ps"
    if "Operator_init c ps w i = Inr op" for ps w
    using that by (auto simp: Operator_init_def bind_res_def split: if_splits sum.splits)
  show ?thesis
  proof (cases "params = []")
    case True
    then show ?thesis using no_args by simp
  next
    case False
    then show ?thesis using last_is_wires [OF False] no_args stored by auto
  qed
qed

theorem Observable_init_last_positional_witness:
  "[PFloat (1/2), PSeq [PStr ''a'', PInt 3]] \<noteq> []
   \<and> Observable_init Bare_class [PFloat (1/2), PSeq [PStr ''a'', PInt 3]] PNone None
       = Inr (Bare [PFloat (1/2)] [StrL ''a'', IntL 3])
   \<and> Wires_init (last [PFloat (1/2), PSeq [PStr ''a'', PInt 3]]) = Inr [StrL ''a'', IntL 3]
   \<and> Observable_init Bare_class [] PNone None
       = Inl (ValueError ''Must specify the wires that Bare acts on'')"
  using Observable_init_last_positional
          [of "[PFloat (1/2), PSeq [PStr ''a'', PInt 3]]" Bare_class None
              "Bare [PFloat (1/2)] [StrL ''a'', IntL 3]"]
  by (simp add: Observable_init_def Operator_init_def Bare_def Bare_class_def Wires_init_def
        Wires_def bind_res_def AnyWires_def AllWires_def)

section \<open>Properties of tensors\<close>

lemma queue_init_flat:
  "list_all (\<lambda>o1. \<not> is_Tensor o1) acc \<Longrightarrow> list_all (flat_operand h) args \<Longrightarrow>
   queue_init h acc args = Inr os \<Longrightarrow> list_all (\<lambda>o1. \<not> is_Tensor o1) os"
  by (induction h acc args rule: queue_init.induct) (auto simp: flat_def)

lemma queue_init_other:
  "OtherVal \<in> set args \<Longrightarrow>
   queue_init h acc args = Inl (ValueError ''Can only perform tensor products between observables.'')"
  by (induction h acc args rule: queue_init.induct) auto

lemma queue_init_ok:
  "OtherVal \<notin> set args \<Longrightarrow> \<exists>os. queue_init h acc args = Inr os"
  by (induction h acc args rule: queue_init.induct) auto

text \<open>
  C8. No element of \<^verbatim>\<open>obs\<close> is a tensor. Construction from operands whose tensors are flat
  fails exactly when an operand is no observable and otherwise gives a flat tensor; a
  tensor followed by a plain observable gives the constituents of the tensor followed
  by the observable; \<^verbatim>\<open>t @ x\<close> and \<^verbatim>\<open>o @ t\<close> keep a flat tensor flat.
\<close>

theorem Tensor_obs_flat:
  "(list_all (flat_operand (tensors st)) args \<longrightarrow>
      (case Tensor_init st args of
         Inl e \<Rightarrow> OtherVal \<in> set args
                  \<and> e = ValueError ''Can only perform tensor products between observables.''
       | Inr (st', r) \<Rightarrow> OtherVal \<notin> set args \<and> flat (tensors st' r)))
   \<and> (case Tensor_init st [TensorRef r0, ObservableVal o1] of
         Inl e \<Rightarrow> False
       | Inr (st', r) \<Rightarrow> obs (tensors st' r) = obs (tensors st r0) @ [PlainObs o1])
   \<and> (flat (tensors st self) \<and> flat_operand (tensors st) other \<longrightarrow>
        (case Tensor_matmul st self other of
           Inl e \<Rightarrow> other = OtherVal
         | Inr (st', r) \<Rightarrow> flat (tensors st' self)))
   \<and> (flat (tensors st self) \<longrightarrow>
        (case Observable_matmul st o1 (TensorRef self) of
           Inl e \<Rightarrow> False
         | Inr (st', r) \<Rightarrow> flat (tensors st' self)))"
proof -
  have init: "case Tensor_init st args of
         Inl e \<Rightarrow> OtherVal \<in> set args
                  \<and> e = ValueError ''Can only perform tensor products between observables.''
       | Inr (st', r) \<Rightarrow> OtherVal \<notin> set args \<and> flat (tensors st' r)"
    if a: "list_all (flat_operand (tensors st)) args"
  proof (cases "OtherVal \<in> set args")
    case True
    then show ?thesis
      using queue_init_other [OF True] by (simp add: Tensor_init_def bind_res_def)
  next
    case False
    from queue_init_ok [OF False] obtain os where os: "queue_init (tensors st) [] args = Inr os"
      by blast
    from queue_init_flat [OF _ a os] have "list_all (\<lambda>o1. \<not> is_Tensor o1) os" by simp
    with False os show ?thesis by (simp add: Tensor_init_def bind_res_def flat_def)
  qed
  have two: "case Tensor_init st [TensorRef r0, ObservableVal o1] of
         Inl e \<Rightarrow> False
       | Inr (st', r) \<Rightarrow> obs (tensors st' r) = obs (tensors st r0) @ [PlainObs o1]"
    by (simp add: Tensor_init_def bind_res_def)
  have mm: "case Tensor_matmul st self other of
           Inl e \<Rightarrow> other = OtherVal
         | Inr (st', r) \<Rightarrow> flat (tensors st' self)"
    if "flat (tensors st self)" "flat_operand (tensors st) other"
    using that by (cases other) (auto simp: Tensor_matmul_def flat_def set_obs_def)
  have rmm: "case Observable_matmul st o1 (TensorRef self) of
           Inl e \<Rightarrow> False
         | Inr (st', r) \<Rightarrow> flat (tensors st' self)"
    if "flat (tensors st self)"
    using that by (auto simp: Observable_matmul_def Tensor_rmatmul_def flat_def set_obs_def)
  show ?thesis using init two mm rmm by blast
qed

theorem Tensor_obs_flat_witness:
  "list_all (flat_operand (tensors ZZ_store)) [TensorRef 0, ObservableVal (PauliZ (IntL 2))]
   \<and> flat (tensors ZZ_store 0)
   \<and> flat_operand (tensors ZZ_store) (ObservableVal (PauliZ (IntL 2)))
   \<and> (case Tensor_init ZZ_store [TensorRef 0, ObservableVal (PauliZ (IntL 2))] of
         Inl e \<Rightarrow> False
       | Inr (st', r) \<Rightarrow>
           r = 1 \<and> flat (tensors st' r)
           \<and> obs (tensors st' r) = [PlainObs (PauliZ (IntL 0)), PlainObs (PauliZ (IntL 1)),
                                    PlainObs (PauliZ (IntL 2))])
   \<and> (case Tensor_matmul ZZ_store 0 (ObservableVal (PauliZ (IntL 2))) of
         Inl e \<Rightarrow> False | Inr (st', r) \<Rightarrow> flat (tensors st' 0))
   \<and> (case Observable_matmul ZZ_store (PauliZ (IntL 2)) (TensorRef 0) of
         Inl e \<Rightarrow> False | Inr (st', r) \<Rightarrow> flat (tensors st' 0))"
  using Tensor_obs_flat [where st = ZZ_store
          and args = "[TensorRef 0, ObservableVal (PauliZ (IntL 2))]" and ?r0.0 = 0
          and ?o1.0 = "PauliZ (IntL 2)" and self = 0
          and other = "ObservableVal (PauliZ (IntL 2))"]
  by (simp add: ZZ_store_def flat_def Tensor_init_def Tensor_matmul_def Observable_matmul_def
        Tensor_rmatmul_def set_obs_def bind_res_def)

text \<open>
  C9. \<^verbatim>\<open>t @ o\<close> returns the reference \<^verbatim>\<open>t\<close> itself; in the store only \<^verbatim>\<open>t\<close> changes, and of
  \<^verbatim>\<open>t\<close> only \<^verbatim>\<open>obs\<close>, which gets \<^verbatim>\<open>o\<close> appended (the constituents of \<^verbatim>\<open>o\<close> when \<^verbatim>\<open>o\<close> is a tensor).
  \<^verbatim>\<open>o @ t\<close> for a plain observable \<^verbatim>\<open>o\<close> prepends \<^verbatim>\<open>o\<close> in the same way.
\<close>

theorem matmul_in_place:
  "(case Tensor_matmul st self (ObservableVal o1) of
      Inl e \<Rightarrow> False
    | Inr (st', r) \<Rightarrow>
        r = self
        \<and> obs (tensors st' self) = obs (tensors st self) @ [PlainObs o1]
        \<and> eigvals_cache (tensors st' self) = eigvals_cache (tensors st self)
        \<and> return_type (tensors st' self) = return_type (tensors st self)
        \<and> next_ref st' = next_ref st
        \<and> (\<forall>r'. r' \<noteq> self \<longrightarrow> tensors st' r' = tensors st r'))
   \<and> (case Tensor_matmul st self (TensorRef r2) of
      Inl e \<Rightarrow> False
    | Inr (st', r) \<Rightarrow>
        r = self
        \<and> obs (tensors st' self) = obs (tensors st self) @ obs (tensors st r2)
        \<and> eigvals_cache (tensors st' self) = eigvals_cache (tensors st self)
        \<and> return_type (tensors st' self) = return_type (tensors st self)
        \<and> next_ref st' = next_ref st
        \<and> (\<forall>r'. r' \<noteq> self \<longrightarrow> tensors st' r' = tensors st r'))
   \<and> (case Observable_matmul st o1 (TensorRef self) of
      Inl e \<Rightarrow> False
    | Inr (st', r) \<Rightarrow>
        r = self
        \<and> obs (tensors st' self) = PlainObs o1 # obs (tensors st self)
        \<and> eigvals_cache (tensors st' self) = eigvals_cache (tensors st self)
        \<and> return_type (tensors st' self) = return_type (tensors st self)
        \<and> next_ref st' = next_ref st
        \<and> (\<forall>r'. r' \<noteq> self \<longrightarrow> tensors st' r' = tensors st r'))"
  by (simp add: Tensor_matmul_def Observable_matmul_def Tensor_rmatmul_def set_obs_def)

theorem matmul_in_place_witness:
  "(1::nat) \<noteq> 0
   \<and> (case Tensor_matmul ZZ_store 0 (ObservableVal (PauliZ (IntL 2))) of
        Inl e \<Rightarrow> False
      | Inr (st', r) \<Rightarrow>
          r = 0
          \<and> obs (tensors st' 0) = [PlainObs (PauliZ (IntL 0)), PlainObs (PauliZ (IntL 1)),
                                   PlainObs (PauliZ (IntL 2))]
          \<and> tensors st' 1 = tensors ZZ_store 1)
   \<and> (case Tensor_matmul ZZ_store 0 (TensorRef 0) of
        Inl e \<Rightarrow> False
      | Inr (st', r) \<Rightarrow>
          r = 0
          \<and> obs (tensors st' 0) = [PlainObs (PauliZ (IntL 0)), PlainObs (PauliZ (IntL 1)),
                                   PlainObs (PauliZ (IntL 0)), PlainObs (PauliZ (IntL 1))]
          \<and> tensors st' 1 = tensors ZZ_store 1)
   \<and> (case Observable_matmul ZZ_store (PauliZ (IntL 2)) (TensorRef 0) of
        Inl e \<Rightarrow> False
      | Inr (st', r) \<Rightarrow>
          r = 0
          \<and> obs (tensors st' 0) = [PlainObs (PauliZ (IntL 2)), PlainObs (PauliZ (IntL 0)),
                                   PlainObs (PauliZ (IntL 1))]
          \<and> tensors st' 1 = tensors ZZ_store 1)"
  using matmul_in_place [where st = ZZ_store and self = 0 and ?o1.0 = "PauliZ (IntL 2)"
          and ?r2.0 = 0]
  by (simp add: ZZ_store_def Tensor_matmul_def Observable_matmul_def Tensor_rmatmul_def
        set_obs_def)

lemma sequence_res_Nil: "sequence_res xs = Inr [] \<Longrightarrow> xs = []"
  by (cases xs rule: sequence_res.cases) (auto simp: bind_res_def split: sum.splits)

lemma groupby_Nil: "groupby key xs = [] \<Longrightarrow> xs = []"
  by (cases xs) (auto split: list.splits if_splits)

text \<open>
  C5. When the blocks of a tensor are defined and the product of their sizes is not
  \<open>2 ^ (number of wires)\<close>, \<^verbatim>\<open>matrix()\<close> raises nothing: it returns the Kronecker product of
  the blocks together with one more warning.
\<close>

theorem Tensor_matrix_size_mismatch:
  "U_list t = Inr blocks \<and> sequence_res (map (\<lambda>b. shape0 (fst b)) blocks) = Inr sizes
     \<and> prod_list sizes \<noteq> 2 ^ length (tensor_wires t)
   \<longrightarrow> (\<exists>u us. map fst blocks = u # us
         \<and> Tensor_matrix t None =
             Inr (foldl np_kron u us,
                  concat (map snd blocks) @
                    [if check_wires_partial_overlap t then PartialOverlapWarning
                     else SizeMismatchWarning (prod_list sizes) (2 ^ length (tensor_wires t))]))"
proof (intro impI, elim conjE)
  assume ul: "U_list t = Inr blocks"
    and sz: "sequence_res (map (\<lambda>b. shape0 (fst b)) blocks) = Inr sizes"
    and neq: "prod_list sizes \<noteq> 2 ^ length (tensor_wires t)"
  obtain os c r where t: "t = Tensor os c r" by (cases t)
  have "blocks \<noteq> []"
  proof
    assume e: "blocks = []"
    with sz have "sizes = []" by simp
    moreover from ul e t have "os = []"
      by (auto dest!: sequence_res_Nil groupby_Nil)
    ultimately show False using neq t by (simp add: all_wires_def)
  qed
  then obtain b bs where b: "blocks = b # bs" by (cases blocks) auto
  show "\<exists>u us. map fst blocks = u # us
         \<and> Tensor_matrix t None =
             Inr (foldl np_kron u us,
                  concat (map snd blocks) @
                    [if check_wires_partial_overlap t then PartialOverlapWarning
                     else SizeMismatchWarning (prod_list sizes) (2 ^ length (tensor_wires t))])"
    using ul sz neq unfolding t b
    by (simp add: Tensor_matrix_def bind_res_def matrix_of_blocks_def reduce_def Let_def)
qed

theorem Tensor_matrix_size_mismatch_witness:
  "U_list ZZZ = Inr [(\<lparr>shape = [2, 2], dat = [1, 0, 0, -1]\<rparr>, []),
                     (\<lparr>shape = [2, 2], dat = [1, 0, 0, -1]\<rparr>, []),
                     (\<lparr>shape = [2, 2], dat = [1, 0, 0, -1]\<rparr>, [])]
   \<and> tensor_wires ZZZ = [IntL 0, IntL 1]
   \<and> (8::nat) \<noteq> 2 ^ 2
   \<and> Tensor_matrix ZZZ None =
       Inr (np_kron (np_kron \<lparr>shape = [2, 2], dat = [1, 0, 0, -1]\<rparr>
                             \<lparr>shape = [2, 2], dat = [1, 0, 0, -1]\<rparr>)
                    \<lparr>shape = [2, 2], dat = [1, 0, 0, -1]\<rparr>,
            [SizeMismatchWarning 8 4])"
proof -
  have ul: "U_list ZZZ = Inr [(\<lparr>shape = [2, 2], dat = [1, 0, 0, -1]\<rparr>, []),
                     (\<lparr>shape = [2, 2], dat = [1, 0, 0, -1]\<rparr>, []),
                     (\<lparr>shape = [2, 2], dat = [1, 0, 0, -1]\<rparr>, [])]"
    by (simp add: ZZZ_def PauliZ_def PauliZ_class_def matrix_def Operation_matrix_def
          bind_res_def in_wire_order_def group_block_def)
  have tw: "tensor_wires ZZZ = [IntL 0, IntL 1]"
    by (simp add: ZZZ_def PauliZ_def all_wires_def)
  have po: "\<not> check_wires_partial_overlap ZZZ"
    by (simp add: ZZZ_def PauliZ_def check_wires_partial_overlap_def shared_wires_def)
  show ?thesis
    using Tensor_matrix_size_mismatch [where t = ZZZ and sizes = "[2, 2, 2]"
        and blocks = "[(\<lparr>shape = [2, 2], dat = [1, 0, 0, -1]\<rparr>, []),
                     (\<lparr>shape = [2, 2], dat = [1, 0, 0, -1]\<rparr>, []),
                     (\<lparr>shape = [2, 2], dat = [1, 0, 0, -1]\<rparr>, [])]"]
    by (simp add: ul tw po shape0_def bind_res_def)
qed

section \<open>Sparse matrix of a tensor: what holds\<close>

lemma sparse_loop_good:
  "list_all (\<lambda>o1. factor_of ws o1 \<noteq> None) os \<Longrightarrow>
   \<exists>warns. sparse_loop ws acc os = Inr (foldl (place ws) acc os, warns)"
proof (induction os arbitrary: acc)
  case Nil
  then show ?case by simp
next
  case (Cons o1 os)
  from Cons.prems obtain p where p: "factor_of ws o1 = Some p" by auto
  then obtain w mw where w: "obs_wires o1 = [w]" "w \<in> set ws" "obs_matrix o1 = Inr mw"
      "coo_matrix (fst mw) = Inr (snd p)" "fst p = index_of ws w"
    by (auto simp: factor_of_def split: list.splits if_splits sum.splits)
  from Cons.prems have "list_all (\<lambda>o1. factor_of ws o1 \<noteq> None) os" by simp
  from Cons.IH [OF this, of "acc[fst p := snd p]"] obtain warns where
    "sparse_loop ws (acc[fst p := snd p]) os = Inr (foldl (place ws) (acc[fst p := snd p]) os, warns)"
    by blast
  moreover have "place ws acc o1 = acc[fst p := snd p]" by (simp add: place_def p)
  ultimately show ?case using w
    by (simp add: bind_res_def wires_index_obj_def wires_index_def)
qed

lemma map_filter_app: "List.map_filter f (xs @ ys) = List.map_filter f xs @ List.map_filter f ys"
  by (simp add: List.map_filter_def)

lemma length_place: "length (foldl (place ws) acc os) = length acc"
  by (induction os arbitrary: acc) (auto simp: place_def split: option.splits)

lemma nth_place:
  "k < length acc \<Longrightarrow>
   foldl (place ws) acc os ! k =
     (if filter (\<lambda>p. fst p = k) (List.map_filter (factor_of ws) os) = [] then acc ! k
      else snd (last (filter (\<lambda>p. fst p = k) (List.map_filter (factor_of ws) os))))"
proof (induction os rule: rev_induct)
  case Nil
  then show ?case by simp
next
  case (snoc o1 os)
  let ?prev = "foldl (place ws) acc os"
  have len: "k < length ?prev" using snoc.prems by (simp add: length_place)
  show ?case
  proof (cases "factor_of ws o1")
    case None
    then have "place ws ?prev o1 = ?prev" by (simp add: place_def)
    then show ?thesis using snoc None by (simp add: map_filter_app)
  next
    case (Some p)
    then have pl: "place ws ?prev o1 = ?prev[fst p := snd p]" by (simp add: place_def)
    show ?thesis
    proof (cases "fst p = k")
      case True
      then show ?thesis using len Some pl
        by (simp add: map_filter_app)
    next
      case False
      then show ?thesis using snoc Some pl
        by (simp add: map_filter_app)
    qed
  qed
qed

lemma sparse_loop_multi:
  "list_all (\<lambda>o1. factor_of ws o1 \<noteq> None) pre \<Longrightarrow> length (obs_wires o1) > 1 \<Longrightarrow>
   sparse_loop ws acc (pre @ o1 # post) =
     Inl (ValueError ''Can only compute sparse representation for tensors whose operations act on consecutive wires'')"
proof (induction pre arbitrary: acc)
  case Nil
  then show ?case by simp
next
  case (Cons a pre)
  from Cons.prems obtain p where p: "factor_of ws a = Some p" by auto
  then obtain w mw where w: "obs_wires a = [w]" "w \<in> set ws" "obs_matrix a = Inr mw"
      "coo_matrix (fst mw) = Inr (snd p)" "fst p = index_of ws w"
    by (auto simp: factor_of_def split: list.splits if_splits sum.splits)
  from Cons.prems have "list_all (\<lambda>o1. factor_of ws o1 \<noteq> None) pre" by simp
  from Cons.IH [OF this Cons.prems(2)] show ?case using w
    by (simp add: bind_res_def wires_index_obj_def wires_index_def)
qed

text \<open>
  C2 (as the code has it). The claim: \<^verbatim>\<open>sparse_matrix\<close> succeeds whenever every constituent
  acts on a contiguous block of the target ordering and fails only on a non-contiguous
  constituent. The loop rejects every constituent with more than one wire, so a
  two-wire observable on the adjacent wires 0 and 1 already fails.
\<close>

theorem sparse_matrix_contiguous_counterexample:
  "contiguous_block [IntL 0, IntL 1] (obs_wires (PlainObs (Hermitian [IntL 0, IntL 1])))
   \<and> obs H01 = [PlainObs (Hermitian [IntL 0, IntL 1])]
   \<and> target_wires H01 None = Inr [IntL 0, IntL 1]
   \<and> Tensor_sparse_matrix H01 None =
       Inl (ValueError ''Can only compute sparse representation for tensors whose operations act on consecutive wires'')"
  by (simp add: contiguous_block_def H01_def Hermitian_def Tensor_sparse_matrix_def
        target_wires_def all_wires_def bind_res_def)

text \<open>
  C2, amended. With a non-empty target ordering, when every constituent acts on exactly
  one wire of the ordering and has a matrix, \<^verbatim>\<open>sparse_matrix\<close> returns the Kronecker product
  of one factor per position: the identity where no constituent sits, otherwise the
  matrix of the last constituent on that wire. It raises the \<^verbatim>\<open>ValueError\<close> when it reaches a
  constituent with more than one wire, contiguous or not.
\<close>

theorem sparse_matrix_single_wire:
  "(target_wires t wires_arg = Inr ws \<and> ws \<noteq> []
      \<and> list_all (\<lambda>o1. factor_of ws o1 \<noteq> None) (obs t)
    \<longrightarrow> (\<exists>f fs warns. Tensor_sparse_matrix t wires_arg = Inr (foldl np_kron f fs, warns)
           \<and> length (f # fs) = length ws
           \<and> (\<forall>k<length ws. (f # fs) ! k =
                (if filter (\<lambda>p. fst p = k) (List.map_filter (factor_of ws) (obs t)) = []
                 then np_eye 2
                 else snd (last (filter (\<lambda>p. fst p = k)
                                        (List.map_filter (factor_of ws) (obs t))))))))
   \<and> (target_wires t wires_arg = Inr ws \<and> obs t = pre @ o1 # post
      \<and> list_all (\<lambda>o1. factor_of ws o1 \<noteq> None) pre \<and> length (obs_wires o1) > 1
    \<longrightarrow> Tensor_sparse_matrix t wires_arg =
          Inl (ValueError ''Can only compute sparse representation for tensors whose operations act on consecutive wires''))"
proof (intro conjI impI; elim conjE)
  assume tw: "target_wires t wires_arg = Inr ws" and ne: "ws \<noteq> []"
    and good: "list_all (\<lambda>o1. factor_of ws o1 \<noteq> None) (obs t)"
  let ?acc = "replicate (length ws) (np_eye 2 :: complex ndarray)"
  let ?res = "foldl (place ws) ?acc (obs t)"
  from sparse_loop_good [OF good, of ?acc] obtain warns where
    sl: "sparse_loop ws ?acc (obs t) = Inr (?res, warns)" by blast
  have len: "length ?res = length ws" by (simp add: length_place)
  with ne obtain f fs where ffs: "?res = f # fs" by (cases ?res) auto
  have nth: "(f # fs) ! k =
                (if filter (\<lambda>p. fst p = k) (List.map_filter (factor_of ws) (obs t)) = []
                 then np_eye 2
                 else snd (last (filter (\<lambda>p. fst p = k)
                                        (List.map_filter (factor_of ws) (obs t)))))" if "k < length ws" for k
    using nth_place [of k ?acc ws "obs t"] that unfolding ffs by simp
  have "Tensor_sparse_matrix t wires_arg = Inr (foldl np_kron f fs, warns)"
    using tw sl ffs by (simp add: Tensor_sparse_matrix_def bind_res_def reduce_def)
  then show "\<exists>f fs warns. Tensor_sparse_matrix t wires_arg = Inr (foldl np_kron f fs, warns)
           \<and> length (f # fs) = length ws
           \<and> (\<forall>k<length ws. (f # fs) ! k =
                (if filter (\<lambda>p. fst p = k) (List.map_filter (factor_of ws) (obs t)) = []
                 then np_eye 2
                 else snd (last (filter (\<lambda>p. fst p = k)
                                        (List.map_filter (factor_of ws) (obs t))))))"
    using len nth unfolding ffs by blast
next
  assume tw: "target_wires t wires_arg = Inr ws" and o: "obs t = pre @ o1 # post"
    and good: "list_all (\<lambda>o1. factor_of ws o1 \<noteq> None) pre" and multi: "length (obs_wires o1) > 1"
  show "Tensor_sparse_matrix t wires_arg =
          Inl (ValueError ''Can only compute sparse representation for tensors whose operations act on consecutive wires'')"
    using tw sparse_loop_multi [OF good multi] unfolding Tensor_sparse_matrix_def o
    by (simp add: bind_res_def)
qed


theorem sparse_matrix_single_wire_witness:
  "target_wires Z0 (Some [IntL 1, IntL 0]) = Inr [IntL 1, IntL 0]
   \<and> [IntL 1, IntL 0] \<noteq> []
   \<and> list_all (\<lambda>o1. factor_of [IntL 1, IntL 0] o1 \<noteq> None) (obs Z0)
   \<and> Tensor_sparse_matrix Z0 (Some [IntL 1, IntL 0]) =
       Inr (np_kron (np_eye 2) \<lparr>shape = [2, 2], dat = [1, 0, 0, -1]\<rparr>, [])
   \<and> target_wires Z_H12 None = Inr [IntL 0, IntL 1, IntL 2]
   \<and> obs Z_H12 = [PlainObs (PauliZ (IntL 0))] @ PlainObs (Hermitian [IntL 1, IntL 2]) # []
   \<and> list_all (\<lambda>o1. factor_of [IntL 0, IntL 1, IntL 2] o1 \<noteq> None) [PlainObs (PauliZ (IntL 0))]
   \<and> length (obs_wires (PlainObs (Hermitian [IntL 1, IntL 2]))) > 1
   \<and> Tensor_sparse_matrix Z_H12 None =
       Inl (ValueError ''Can only compute sparse representation for tensors whose operations act on consecutive wires'')"
proof -
  have zm: "matrix (PauliZ w) None = Inr \<lparr>shape = [2, 2], dat = [1, 0, 0, -1]\<rparr>" for w
    by (simp add: PauliZ_def PauliZ_class_def matrix_def Operation_matrix_def bind_res_def
          in_wire_order_def)
  have zw: "wires (PauliZ w) = [w]" for w
    by (simp add: PauliZ_def)
  have hw: "wires (Hermitian ws) = ws" for ws
    by (simp add: Hermitian_def)
  have a_hyp: "target_wires Z0 (Some [IntL 1, IntL 0]) = Inr [IntL 1, IntL 0]
      \<and> [IntL 1, IntL 0] \<noteq> []
      \<and> list_all (\<lambda>o1. factor_of [IntL 1, IntL 0] o1 \<noteq> None) (obs Z0)"
    by (simp add: Z0_def target_wires_def Wires_def factor_of_def zm zw coo_matrix_def bind_res_def)
  have a_val: "Tensor_sparse_matrix Z0 (Some [IntL 1, IntL 0]) =
       Inr (np_kron (np_eye 2) \<lparr>shape = [2, 2], dat = [1, 0, 0, -1]\<rparr>, [])"
    by (simp add: Z0_def target_wires_def Wires_def zm zw coo_matrix_def
          Tensor_sparse_matrix_def bind_res_def wires_index_obj_def wires_index_def reduce_def)
  have a_thm: "\<exists>f fs warns. Tensor_sparse_matrix Z0 (Some [IntL 1, IntL 0])
                  = Inr (foldl np_kron f fs, warns) \<and> length (f # fs) = length [IntL 1, IntL 0]"
    using sparse_matrix_single_wire [where t = Z0 and wires_arg = "Some [IntL 1, IntL 0]"
            and ws = "[IntL 1, IntL 0]", THEN conjunct1] a_hyp
    by blast
  have b_hyp: "target_wires Z_H12 None = Inr [IntL 0, IntL 1, IntL 2]
      \<and> obs Z_H12 = [PlainObs (PauliZ (IntL 0))] @ PlainObs (Hermitian [IntL 1, IntL 2]) # []
      \<and> list_all (\<lambda>o1. factor_of [IntL 0, IntL 1, IntL 2] o1 \<noteq> None)
                  [PlainObs (PauliZ (IntL 0))]
      \<and> length (obs_wires (PlainObs (Hermitian [IntL 1, IntL 2]))) > 1"
    by (simp add: Z_H12_def target_wires_def all_wires_def factor_of_def zm zw hw coo_matrix_def
          bind_res_def)
  have b_val: "Tensor_sparse_matrix Z_H12 None =
       Inl (ValueError ''Can only compute sparse representation for tensors whose operations act on consecutive wires'')"
    using sparse_matrix_single_wire [where t = Z_H12 and wires_arg = None
            and ws = "[IntL 0, IntL 1, IntL 2]" and pre = "[PlainObs (PauliZ (IntL 0))]"
            and ?o1.0 = "PlainObs (Hermitian [IntL 1, IntL 2])" and post = "[]",
            THEN conjunct2] b_hyp
    by blast
  from a_thm a_hyp a_val b_hyp b_val show ?thesis by blast
qed

section \<open>Expansion of Heisenberg-picture arrays\<close>

lemma wires_indices_contained:
  "contains_wires order ws \<Longrightarrow> wires_indices order ws = Inr (map (index_of order) ws)"
  by (induction ws) (auto simp: contains_wires_def wires_index_def bind_res_def)















section \<open>Matrix expansion over the same wires\<close>

lemma index_of_nth: "distinct xs \<Longrightarrow> i < length xs \<Longrightarrow> index_of xs (xs ! i) = i"
proof (induction xs arbitrary: i)
  case Nil
  then show ?case by simp
next
  case (Cons x xs)
  then show ?case by (cases i) auto
qed

lemma index_of_upt: "i < n \<Longrightarrow> index_of [0..<n] i = i"
  using index_of_nth [of "[0..<n]" i] by simp

lemma wires_indices_self:
  assumes "distinct ws"
  shows "wires_indices ws ws = Inr [0..<length ws]"
proof -
  have "contains_wires ws ws" by (simp add: contains_wires_def list_all_iff)
  then have "wires_indices ws ws = Inr (map (index_of ws) ws)"
    by (rule wires_indices_contained)
  moreover have "map (index_of ws) ws = [0..<length ws]"
    by (rule nth_equalityI) (simp_all add: index_of_nth assms)
  ultimately show ?thesis by simp
qed

lemma length_unravel: "length (unravel sh k) = length sh"
  by (induction sh arbitrary: k) auto

lemma ravel_unravel: "k < prod_list sh \<Longrightarrow> ravel sh (unravel sh k) = k"
proof (induction sh arbitrary: k)
  case Nil
  then show ?case by simp
next
  case (Cons s ss)
  from Cons.prems have pos: "0 < prod_list ss" by (cases "prod_list ss = 0") auto
  then have "k mod prod_list ss < prod_list ss" by simp
  from Cons.IH [OF this] show ?case by simp
qed

lemma transpose_id:
  assumes "length (dat a) = prod_list (shape a)"
  shows "np_transpose a [0..<ndim a] = Inr a"
proof -
  let ?sh = "shape a"
  let ?nd = "length ?sh"
  have perm: "is_axes_perm ?nd [0..<?nd]" by (simp add: is_axes_perm_def list_all_iff)
  have nsh: "map (\<lambda>i. ?sh ! i) [0..<?nd] = ?sh" by (rule map_nth)
  have idx: "map (\<lambda>i. unravel ?sh k ! index_of [0..<?nd] i) [0..<?nd] = unravel ?sh k" for k
  proof -
    have "map (\<lambda>i. unravel ?sh k ! index_of [0..<?nd] i) [0..<?nd]
            = map (\<lambda>i. unravel ?sh k ! i) [0..<?nd]"
      by (rule map_cong) (simp_all add: index_of_upt)
    also have "\<dots> = unravel ?sh k"
      using map_nth [of "unravel ?sh k"] by (simp add: length_unravel)
    finally show ?thesis .
  qed
  have "map (\<lambda>k. dat a ! ravel ?sh (unravel ?sh k)) [0..<prod_list ?sh] = dat a"
  proof -
    have "map (\<lambda>k. dat a ! ravel ?sh (unravel ?sh k)) [0..<prod_list ?sh]
            = map (\<lambda>k. dat a ! k) [0..<prod_list ?sh]"
      by (rule map_cong) (simp_all add: ravel_unravel)
    also have "\<dots> = dat a" using map_nth [of "dat a"] assms by simp
    finally show ?thesis .
  qed
  then show ?thesis using perm
    by (simp add: np_transpose_def ndim_def Let_def nsh idx)
qed

lemma sum_delta:
  "sum_list (map (\<lambda>k. f k * (if k = j then 1 else 0)) [0..<N]) = (if j < N then f j else (0::'a::comm_semiring_1))"
  by (induction N) (auto simp: less_Suc_eq)

lemma eye_nth:
  assumes "k < N" "j < N"
  shows "dat (np_eye N :: ('a::comm_semiring_1) ndarray) ! (k * N + j) = (if k = j then 1 else 0)"
proof -
  have "k * N + j < N * N"
  proof -
    have "k * N + j < k * N + N" using assms by simp
    also have "\<dots> = Suc k * N" by simp
    also have "\<dots> \<le> N * N" using assms(1) mult_le_mono1 [of "Suc k" N N] by simp
    finally show ?thesis .
  qed
  then show ?thesis using assms by (simp add: np_eye_def)
qed

lemma dot_eye:
  assumes "shape a = [r, N]" "length (dat a) = r * N" "shape b = [N, N]" "dat b = dat (np_eye N)"
  shows "np_dot a b = Inr \<lparr>shape = [r, N], dat = dat (a :: ('a::comm_semiring_1) ndarray)\<rparr>"
proof -
  have entry: "sum_list (map (\<lambda>k. dat a ! ((p div N) * N + k) * dat b ! (k * N + p mod N)) [0..<N])
                 = dat a ! p" if "p < r * N" for p
  proof -
    from that have N: "0 < N" by (cases N) auto
    then have j: "p mod N < N" by simp
    have "map (\<lambda>k. dat a ! ((p div N) * N + k) * dat b ! (k * N + p mod N)) [0..<N]
            = map (\<lambda>k. dat a ! ((p div N) * N + k) * (if k = p mod N then 1 else 0)) [0..<N]"
      by (rule map_cong) (simp_all add: assms(4) eye_nth j)
    then have "sum_list (map (\<lambda>k. dat a ! ((p div N) * N + k) * dat b ! (k * N + p mod N)) [0..<N])
                 = sum_list (map (\<lambda>k. dat a ! ((p div N) * N + k) * (if k = p mod N then 1 else 0)) [0..<N])"
      by (rule arg_cong)
    also have "\<dots> = dat a ! ((p div N) * N + p mod N)"
      using j by (simp only: sum_delta if_True)
    finally show ?thesis by simp
  qed
  have "map (\<lambda>p. sum_list (map (\<lambda>k. dat a ! ((p div N) * N + k) * dat b ! (k * N + p mod N)) [0..<N]))
            [0..<r * N] = map (\<lambda>p. dat a ! p) [0..<r * N]"
    by (rule map_cong) (simp_all add: entry)
  also have "\<dots> = dat a" using map_nth [of "dat a"] assms(2) by simp
  finally show ?thesis using assms(1,3) by (simp add: np_dot_def)
qed


lemma upt_split: "[0..<2 * n] = [0..<n] @ [n..<2 * n]"
  using upt_add_eq_append [of 0 n n] by (simp add: mult_2)

lemma filter_lower: "filter (\<lambda>k. k \<notin> set [n..<2 * n]) [0..<2 * n] = [0..<n]"
  by (simp add: upt_split [of n] filter_empty_conv filter_id_conv del: upt.simps)

lemma filter_upper: "filter (\<lambda>k. k \<notin> set [0..<n]) [0..<2 * n] = [n..<2 * n]"
  by (simp only: upt_split [of n] filter_append) (simp add: filter_empty_conv filter_id_conv)

lemma filter_none: "filter (\<lambda>k. k \<notin> set [0..<n]) [0..<n] = []"
  by (simp add: filter_empty_conv)

lemma insert_in_order:
  "k \<le> n \<Longrightarrow>
   foldl (\<lambda>order (dest, src). list_insert order dest src) ([0..<k] @ rest) (zip [k..<n] [k..<n])
     = [0..<n] @ rest"
proof (induction "n - k" arbitrary: k)
  case 0
  then show ?case by simp
next
  case (Suc d)
  then have lt: "k < n" by simp
  have ins: "list_insert ([0..<k] @ rest) k k = [0..<Suc k] @ rest"
    by (simp add: list_insert_def)
  from Suc(2) lt have "d = n - Suc k" by simp
  from Suc(1) [OF this] lt have
    "foldl (\<lambda>order (dest, src). list_insert order dest src) ([0..<Suc k] @ rest)
        (zip [Suc k..<n] [Suc k..<n]) = [0..<n] @ rest" by simp
  then show ?case using lt ins by (simp add: upt_conv_Cons del: upt_Suc)
qed

lemma moveaxis_unfold:
  assumes "list_all (\<lambda>i. i < ndim a) source" "list_all (\<lambda>i. i < ndim a) destination"
    and "distinct source" "distinct destination" "length source = length destination"
    and "foldl (\<lambda>order (dest, src). list_insert order dest src)
               (filter (\<lambda>n. n \<notin> set source) [0..<ndim a])
               (sort_key fst (zip destination source)) = order"
  shows "np_moveaxis a source destination = np_transpose a order"
  using assms by (simp add: np_moveaxis_def)

lemma moveaxis_id:
  assumes "length (dat a) = prod_list (shape a)" "ndim a = 2 * n"
  shows "np_moveaxis a [0..<n] [0..<n] = Inr a"
proof -
  have sorted_pairs: "sort_key fst (zip [0..<n] [0..<n]) = zip [0..<n] [0..<n]"
    by (rule sort_key_id_if_sorted) simp
  have rest: "filter (\<lambda>k. k \<notin> set [0..<n]) [0..<ndim a] = [n..<2 * n]"
    unfolding assms(2) by (rule filter_upper)
  have "foldl (\<lambda>order (dest, src). list_insert order dest src) ([0..<0] @ [n..<2 * n])
          (zip [0..<n] [0..<n]) = [0..<n] @ [n..<2 * n]"
    by (rule insert_in_order) simp
  then have order: "foldl (\<lambda>order (dest, src). list_insert order dest src)
                  (filter (\<lambda>k. k \<notin> set [0..<n]) [0..<ndim a])
                  (sort_key fst (zip [0..<n] [0..<n]))
                = [0..<ndim a]"
    unfolding rest sorted_pairs assms(2) upt_split [of n] by simp
  have bound: "list_all (\<lambda>i. i < ndim a) [0..<n]" by (simp add: list_all_iff assms(2))
  have "np_moveaxis a [0..<n] [0..<n] = np_transpose a [0..<ndim a]"
    by (rule moveaxis_unfold) (simp_all only: bound order distinct_upt)
  then show ?thesis by (simp only: transpose_id [OF assms(1)])
qed

lemma prod_replicate_2: "prod_list (replicate k (2::nat)) = 2 ^ k"
  by (induction k) auto

lemma tensordot_unfold:
  assumes "length axes_a = length axes_b"
    and "list_all (\<lambda>i. i < length (shape a)) axes_a"
    and "list_all (\<lambda>i. i < length (shape b)) axes_b"
    and "map (\<lambda>i. shape a ! i) axes_a = map (\<lambda>i. shape b ! i) axes_b"
    and "filter (\<lambda>k. k \<notin> set axes_a) [0..<length (shape a)] = notin_a"
    and "filter (\<lambda>k. k \<notin> set axes_b) [0..<length (shape b)] = notin_b"
  shows "np_tensordot a b axes_a axes_b =
     bind_res (np_transpose a (notin_a @ axes_a)) (\<lambda>ta.
     bind_res (np_reshape ta [prod_list (map (\<lambda>i. shape a ! i) notin_a),
                              prod_list (map (\<lambda>i. shape b ! i) axes_b)]) (\<lambda>a2.
     bind_res (np_transpose b (axes_b @ notin_b)) (\<lambda>tb.
     bind_res (np_reshape tb [prod_list (map (\<lambda>i. shape b ! i) axes_b),
                              prod_list (map (\<lambda>i. shape b ! i) notin_b)]) (\<lambda>b2.
     bind_res (np_dot a2 b2) (\<lambda>res.
     np_reshape res (map (\<lambda>i. shape a ! i) notin_a @ map (\<lambda>i. shape b ! i) notin_b))))))"
  using assms by (simp add: np_tensordot_def Let_def)

lemma tensordot_with_eye:
  fixes m :: "('a::comm_semiring_1) ndarray"
  assumes "shape m = replicate (2 * n) 2" "length (dat m) = 2 ^ n * 2 ^ n"
    and "shape e = replicate (2 * n) 2" "dat e = dat (np_eye (2 ^ n))"
  shows "np_tensordot m e [n..<2 * n] [0..<n] = Inr m"
proof -
  have nth_a: "map (\<lambda>i. shape m ! i) [n..<2 * n] = replicate n 2"
    by (rule nth_equalityI) (simp_all add: assms(1))
  have nth_b: "map (\<lambda>i. shape e ! i) [0..<n] = replicate n 2"
    by (rule nth_equalityI) (simp_all add: assms(3))
  have nth_a': "map (\<lambda>i. shape m ! i) [0..<n] = replicate n 2"
    by (rule nth_equalityI) (simp_all add: assms(1))
  have nth_b': "map (\<lambda>i. shape e ! i) [n..<2 * n] = replicate n 2"
    by (rule nth_equalityI) (simp_all add: assms(3))
  have pw: "(2::nat) ^ (2 * n) = 2 ^ n * 2 ^ n"
    by (simp add: mult_2 power_add)
  have len_e: "length (dat e) = 2 ^ n * 2 ^ n" by (simp add: assms(4) np_eye_def)
  have tm: "np_transpose m ([0..<n] @ [n..<2 * n]) = Inr m"
    using transpose_id [of m] assms(1,2)
    by (simp add: ndim_def prod_replicate_2 pw upt_split [symmetric] del: upt.simps)
  have te: "np_transpose e ([0..<n] @ [n..<2 * n]) = Inr e"
    using transpose_id [of e] assms(3) len_e
    by (simp add: ndim_def prod_replicate_2 pw upt_split [symmetric] del: upt.simps)
  have rm: "np_reshape m [prod_list (replicate n 2), prod_list (replicate n 2)]
              = Inr \<lparr>shape = [2 ^ n, 2 ^ n], dat = dat m\<rparr>"
    by (simp add: np_reshape_def assms(2) prod_replicate_2)
  have re: "np_reshape e [prod_list (replicate n 2), prod_list (replicate n 2)]
              = Inr \<lparr>shape = [2 ^ n, 2 ^ n], dat = dat e\<rparr>"
    by (simp add: np_reshape_def len_e prod_replicate_2)
  have dot: "np_dot \<lparr>shape = [2 ^ n, 2 ^ n], dat = dat m\<rparr> \<lparr>shape = [2 ^ n, 2 ^ n], dat = dat e\<rparr>
               = Inr \<lparr>shape = [2 ^ n, 2 ^ n], dat = dat m\<rparr>"
    using dot_eye [of "\<lparr>shape = [2 ^ n, 2 ^ n], dat = dat m\<rparr>" "2 ^ n" "2 ^ n"
                      "\<lparr>shape = [2 ^ n, 2 ^ n], dat = dat e\<rparr>"]
    by (simp add: assms(2,4))
  have unflat: "np_reshape \<lparr>shape = [2 ^ n, 2 ^ n], dat = dat m\<rparr> (replicate n 2 @ replicate n 2)
                = Inr m"
    using assms(1,2)
    by (simp add: np_reshape_def prod_replicate_2 mult_2 replicate_add)
  have la: "filter (\<lambda>k. k \<notin> set [n..<2 * n]) [0..<length (shape m)] = [0..<n]"
    unfolding assms(1) length_replicate by (rule filter_lower)
  have lb: "filter (\<lambda>k. k \<notin> set [0..<n]) [0..<length (shape e)] = [n..<2 * n]"
    unfolding assms(3) length_replicate by (rule filter_upper)
  have c1: "length [n..<2 * n] = length [0..<n]" by simp
  have c2: "list_all (\<lambda>i. i < length (shape m)) [n..<2 * n]"
    by (simp add: list_all_iff assms(1))
  have c3: "list_all (\<lambda>i. i < length (shape e)) [0..<n]"
    by (simp add: list_all_iff assms(3))
  have c4: "map (\<lambda>i. shape m ! i) [n..<2 * n] = map (\<lambda>i. shape e ! i) [0..<n]"
    by (simp only: nth_a nth_b)
  show ?thesis
    by (simp only: tensordot_unfold [OF c1 c2 c3 c4 la lb] tm te nth_a nth_a' nth_b nth_b'
          rm re dot unflat bind_res_def sum.case)
qed

text \<open>
  C4. For a wire ordering \<open>w\<close> (pairwise different labels) and a matrix \<open>M\<close> of dimension
  \<open>2 ^ |w|\<close> by \<open>2 ^ |w|\<close>, \<^verbatim>\<open>expand_matrix(M, wires=w, wire_order=w)\<close> is \<open>M\<close>. The function
  does contract and move the axes; with exact entries the outcome equals \<open>M\<close>.
\<close>

theorem expand_matrix_same_wires:
  fixes M :: "('a::comm_semiring_1) ndarray"
  assumes "distinct w" "shape M = [2 ^ length w, 2 ^ length w]"
    and "length (dat M) = 2 ^ length w * 2 ^ length w"
  shows "expand_matrix M w w = Inr M"
proof -
  let ?n = "length w"
  let ?Mr = "\<lparr>shape = replicate (2 * ?n) 2, dat = dat M\<rparr>"
  let ?I = "\<lparr>shape = replicate (2 * ?n) 2, dat = dat (np_eye (2 ^ ?n) :: 'a ndarray)\<rparr>"
  have pw: "(2::nat) ^ (?n * 2) = 2 ^ ?n * 2 ^ ?n"
    by (simp add: mult_2_right power_add)
  have ww: "Wires w = Inr w" by (simp add: Wires_def assms(1))
  have wi: "wires_indices w w = Inr [0..<?n]" by (rule wires_indices_self [OF assms(1)])
  have rI: "np_reshape (np_eye (2 ^ ?n) :: 'a ndarray) (replicate (?n * 2) 2) = Inr ?I"
    by (simp add: np_reshape_def prod_replicate_2 pw np_eye_def mult.commute)
  have rM: "np_reshape M (replicate (?n * 2) 2) = Inr ?Mr"
    by (simp add: np_reshape_def prod_replicate_2 pw assms(3) mult.commute)
  have td: "np_tensordot ?Mr ?I [?n..<2 * ?n] [0..<?n] = Inr ?Mr"
    by (rule tensordot_with_eye) (simp_all add: assms(3))
  have mv: "np_moveaxis ?Mr [0..<?n] ([0..<?n] @ []) = Inr ?Mr"
    unfolding append_Nil2
    by (rule moveaxis_id) (simp_all add: assms(3) prod_replicate_2 ndim_def mult_2 power_add)
  have fin: "np_reshape ?Mr [2 ^ ?n, 2 ^ ?n] = Inr M"
    using assms(2,3) by (simp add: np_reshape_def)
  show ?thesis
    by (simp only: expand_matrix_def Let_def ww wi rI rM td filter_none mv fin bind_res_def
          sum.case)
qed


theorem expand_matrix_same_wires_witness:
  "distinct [IntL 0, IntL 2]
   \<and> shape \<lparr>shape = [4, 4], dat = [1, 2, 3, 4, 5, 6, 7, 8, 9, 10, 11, 12, 13, 14, 15, 16 :: int]\<rparr>
       = [2 ^ length [IntL 0, IntL 2], 2 ^ length [IntL 0, IntL 2]]
   \<and> expand_matrix \<lparr>shape = [4, 4], dat = [1, 2, 3, 4, 5, 6, 7, 8, 9, 10, 11, 12, 13, 14, 15, 16 :: int]\<rparr>
         [IntL 0, IntL 2] [IntL 0, IntL 2]
       = Inr \<lparr>shape = [4, 4], dat = [1, 2, 3, 4, 5, 6, 7, 8, 9, 10, 11, 12, 13, 14, 15, 16]\<rparr>"
  using expand_matrix_same_wires [of "[IntL 0, IntL 2]"
          "\<lparr>shape = [4, 4], dat = [1, 2, 3, 4, 5, 6, 7, 8, 9, 10, 11, 12, 13, 14, 15, 16 :: int]\<rparr>"]
  by simp

text \<open>The two other examples of the docstring of \<^verbatim>\<open>expand_matrix\<close>.\<close>

lemma expand_matrix_swapped_wires:
  "expand_matrix \<lparr>shape = [4, 4], dat = [1, 2, 3, 4, 5, 6, 7, 8, 9, 10, 11, 12, 13, 14, 15, 16 :: int]\<rparr>
         [IntL 0, IntL 2] [IntL 2, IntL 0]
       = Inr \<lparr>shape = [4, 4], dat = [1, 3, 2, 4, 9, 11, 10, 12, 5, 7, 6, 8, 13, 15, 14, 16]\<rparr>"
  by code_simp


lemma expand_matrix_more_wires:
  "expand_matrix \<lparr>shape = [4, 4], dat = [1, 2, 3, 4, 5, 6, 7, 8, 9, 10, 11, 12, 13, 14, 15, 16 :: int]\<rparr>
         [IntL 0, IntL 2] [IntL 0, IntL 1, IntL 2]
       = Inr \<lparr>shape = [8, 8],
              dat = [1, 2, 0, 0, 3, 4, 0, 0,
                     5, 6, 0, 0, 7, 8, 0, 0,
                     0, 0, 1, 2, 0, 0, 3, 4,
                     0, 0, 5, 6, 0, 0, 7, 8,
                     9, 10, 0, 0, 11, 12, 0, 0,
                     13, 14, 0, 0, 15, 16, 0, 0,
                     0, 0, 9, 10, 0, 0, 11, 12,
                     0, 0, 13, 14, 0, 0, 15, 16]\<rparr>"
  by code_simp

end
